theory Spec2Isabelle
  imports Main "HOL-Library.AList"
begin

section \<open>JavaScript objects used as dictionaries\<close>

text \<open>
  The vault is a plain JavaScript object \<^verbatim>\<open>{platform: {keyName: entry}}\<close>; the code
  reads it with \<^verbatim>\<open>vault[platform]\<close>, writes it with \<^verbatim>\<open>vault[platform][keyName] = ...\<close>,
  removes with \<^verbatim>\<open>delete\<close> and enumerates with \<^verbatim>\<open>Object.keys\<close>. An object is modelled
  by the list of its own properties in the order \<^verbatim>\<open>Object.keys\<close> reports them: array
  indices first, in ascending numeric order, then the other names in the order of their
  creation.

  Strings are byte strings (a JavaScript string in its UTF-8 encoding), and so are
  Buffers.
\<close>

type_synonym bytes = "char list"

type_synonym 'a object = "(string \<times> 'a) list"

text \<open>
  A property read also finds what every plain object inherits from
  \<^verbatim>\<open>Object.prototype\<close>: its methods and the accessor \<^verbatim>\<open>__proto__\<close>. All of them are
  truthy values (functions, or the prototype object itself).
\<close>

definition Object_prototype :: "string list" where
  "Object_prototype =
     [''constructor'', ''__defineGetter__'', ''__defineSetter__'', ''hasOwnProperty'',
      ''__lookupGetter__'', ''__lookupSetter__'', ''isPrototypeOf'',
      ''propertyIsEnumerable'', ''toString'', ''valueOf'', ''__proto__'',
      ''toLocaleString'']"

datatype 'a property = Own 'a | Inherited | Undefined

definition js_get :: "'a object \<Rightarrow> string \<Rightarrow> 'a property" where
  "js_get obj k =
     (case map_of obj k of
        Some v \<Rightarrow> Own v
      | None \<Rightarrow> if k \<in> set Object_prototype then Inherited else Undefined)"

text \<open>An array index is the canonical decimal form of an integer below \<open>2^32 - 1\<close>.\<close>

definition is_digit :: "char \<Rightarrow> bool" where
  "is_digit c = (c \<in> set ''0123456789'')"

definition digit_val :: "char \<Rightarrow> nat" where
  "digit_val c = of_char c - 48"

definition dec_val :: "string \<Rightarrow> nat" where
  "dec_val s = foldl (\<lambda>n c. 10 * n + digit_val c) 0 s"

definition is_array_index :: "string \<Rightarrow> bool" where
  "is_array_index s =
     (case s of
        [] \<Rightarrow> False
      | c # cs \<Rightarrow> list_all is_digit s \<and> (if cs = [] then True else c \<noteq> CHR ''0'')
                  \<and> dec_val s < 4294967295)"

fun ins_index :: "string \<Rightarrow> 'a \<Rightarrow> 'a object \<Rightarrow> 'a object" where
  "ins_index k v [] = [(k, v)]"
| "ins_index k v ((k', v') # rest) =
     (if is_array_index k' \<and> dec_val k' < dec_val k
      then (k', v') # ins_index k v rest
      else (k, v) # (k', v') # rest)"

text \<open>
  \<^verbatim>\<open>obj[k] = v\<close>: an own property is overwritten where it stands. Otherwise the
  assignment reaches \<^verbatim>\<open>Object.prototype\<close>: for \<^verbatim>\<open>__proto__\<close> it finds the
  accessor, whose setter replaces the prototype of \<open>obj\<close> and creates no own property
  (the new prototype is not seen by \<^verbatim>\<open>Object.keys\<close> or \<^verbatim>\<open>JSON.stringify\<close>); every
  other name becomes a new own property.
\<close>

definition js_set :: "'a object \<Rightarrow> string \<Rightarrow> 'a \<Rightarrow> 'a object" where
  "js_set obj k v =
     (case map_of obj k of
        Some _ \<Rightarrow> AList.update k v obj
      | None \<Rightarrow>
          if k = ''__proto__'' then obj
          else if is_array_index k then ins_index k v obj
          else obj @ [(k, v)])"

definition js_delete :: "'a object \<Rightarrow> string \<Rightarrow> 'a object" where
  "js_delete obj k = AList.delete k obj"

definition object_keys :: "'a object \<Rightarrow> string list" where
  "object_keys obj = map fst obj"

section \<open>The data model\<close>

text \<open>
  An entry is \<^verbatim>\<open>{value, added, meta}\<close>, a listing is what \<^verbatim>\<open>list\<close> reports for
  an entry: \<^verbatim>\<open>{name, added, meta}\<close>. The API takes strings for the platform, the key
  name and the value, and a string-to-string object for \<^verbatim>\<open>meta\<close> (the spec's
  VaultEntry); timestamps are the strings \<^verbatim>\<open>toISOString\<close> returns.
\<close>

record entry =
  e_value :: string
  e_added :: string
  e_meta :: "string object"

type_synonym vault = "entry object object"

record listing =
  l_name :: string
  l_added :: string
  l_meta :: "string object"

datatype js_error =
  InvalidIV | InvalidAuthTag | AuthFailure | SyntaxError | TypeError | StoreError
  | Error string

section \<open>The library the code calls\<close>

text \<open>
  Node's \<^verbatim>\<open>crypto\<close>, \<^verbatim>\<open>Buffer\<close>, \<^verbatim>\<open>JSON\<close> and the \<^verbatim>\<open>jsonwebtoken\<close> package are not
  part of the repository. The code is modelled over any implementation of them:
  \<^item> \<open>scryptSync password salt keylen\<close>;
  \<^item> \<open>gcm_seal key iv plaintext\<close>: \<^verbatim>\<open>createCipheriv('aes-256-gcm', key, iv)\<close>,
    \<^verbatim>\<open>update\<close>, \<^verbatim>\<open>final\<close> and \<^verbatim>\<open>getAuthTag\<close>, giving the ciphertext and the tag;
  \<^item> \<open>gcm_open key iv authTag ciphertext\<close>: \<^verbatim>\<open>createDecipheriv\<close>, \<^verbatim>\<open>setAuthTag\<close>,
    \<^verbatim>\<open>update\<close> and \<^verbatim>\<open>final\<close>, giving the plaintext or the error thrown;
  \<^item> \<open>to_base64\<close>, \<open>from_base64\<close>, \<open>to_hex\<close>: \<^verbatim>\<open>Buffer\<close> encodings;
  \<^item> \<open>JSON_stringify\<close>, \<open>JSON_parse\<close> on vaults;
  \<^item> \<open>jwt_sign\<close> and \<open>jwt_verify\<close> under the configured secret, on the \<^verbatim>\<open>sub\<close> claim.
\<close>

record node_lib =
  scryptSync :: "string \<Rightarrow> string \<Rightarrow> nat \<Rightarrow> bytes"
  gcm_seal :: "bytes \<Rightarrow> bytes \<Rightarrow> bytes \<Rightarrow> bytes \<times> bytes"
  gcm_open :: "bytes \<Rightarrow> bytes \<Rightarrow> bytes \<Rightarrow> bytes \<Rightarrow> js_error + bytes"
  to_base64 :: "bytes \<Rightarrow> string"
  from_base64 :: "string \<Rightarrow> bytes"
  to_hex :: "bytes \<Rightarrow> string"
  JSON_stringify :: "vault \<Rightarrow> string"
  JSON_parse :: "string \<Rightarrow> js_error + vault"
  jwt_sign :: "string \<Rightarrow> string"
  jwt_verify :: "string \<Rightarrow> string option"

text \<open>What the proofs ask of the library, each only where it is needed.\<close>

definition aead_sound :: "node_lib \<Rightarrow> bool" where
  "aead_sound lib =
     (\<forall>key iv pt. length iv = 16 \<longrightarrow>
        length (snd (gcm_seal lib key iv pt)) = 16 \<and>
        gcm_open lib key iv (snd (gcm_seal lib key iv pt)) (fst (gcm_seal lib key iv pt))
          = Inr pt)"

definition base64_sound :: "node_lib \<Rightarrow> bool" where
  "base64_sound lib = (\<forall>bs. from_base64 lib (to_base64 lib bs) = bs)"

text \<open>GCM is a stream mode: a plaintext is as long as its ciphertext.\<close>

definition stream_cipher :: "node_lib \<Rightarrow> bool" where
  "stream_cipher lib =
     (\<forall>key iv authTag ct pt. gcm_open lib key iv authTag ct = Inr pt \<longrightarrow> length pt = length ct)"

definition jwt_sound :: "node_lib \<Rightarrow> bool" where
  "jwt_sound lib = (\<forall>userId. jwt_verify lib (jwt_sign lib userId) = Some userId)"

section \<open>The serverless function: encryption helpers\<close>

definition deriveKey :: "node_lib \<Rightarrow> string \<Rightarrow> string \<Rightarrow> bytes" where
  "deriveKey lib password salt = scryptSync lib password salt 32"

text \<open>\<open>iv\<close> is the outcome of \<^verbatim>\<open>crypto.randomBytes(16)\<close> in this call.\<close>

definition encrypt :: "node_lib \<Rightarrow> bytes \<Rightarrow> vault \<Rightarrow> string \<Rightarrow> string \<Rightarrow> string" where
  "encrypt lib iv data password salt =
     (let key = deriveKey lib password salt;
          sealed = gcm_seal lib key iv (JSON_stringify lib data);
          encrypted = fst sealed;
          authTag = snd sealed
      in to_base64 lib (iv @ authTag @ encrypted))"

text \<open>
  \<open>decrypt_utf8\<close> is \<^verbatim>\<open>decrypt\<close> up to the string \<^verbatim>\<open>decrypted\<close>; \<open>decrypt\<close> parses
  it. \<^verbatim>\<open>Buffer.slice\<close> clamps its bounds to the buffer, as \<open>take\<close> and \<open>drop\<close> do.
\<close>

definition decrypt_utf8 :: "node_lib \<Rightarrow> string \<Rightarrow> string \<Rightarrow> string \<Rightarrow> js_error + string" where
  "decrypt_utf8 lib encryptedData password salt =
     (let key = deriveKey lib password salt;
          data = from_base64 lib encryptedData;
          iv = take 16 data;
          authTag = take 16 (drop 16 data);
          encryptedText = drop 32 data
      in gcm_open lib key iv authTag encryptedText)"

definition decrypt :: "node_lib \<Rightarrow> string \<Rightarrow> string \<Rightarrow> string \<Rightarrow> js_error + vault" where
  "decrypt lib encryptedData password salt =
     (case decrypt_utf8 lib encryptedData password salt of
        Inl err \<Rightarrow> Inl err
      | Inr decrypted \<Rightarrow> JSON_parse lib decrypted)"

section \<open>The serverless function: requests, responses, the store\<close>

text \<open>
  The fields of a parsed request body. A field that is missing and a field that is the
  empty string are both falsy, and the code tests nothing else about them before it uses
  them: both are the empty string here. \<^verbatim>\<open>meta\<close> is an object or missing.
\<close>

record request =
  body_username :: string
  body_masterPassword :: string
  body_operation :: string
  body_platform :: string
  body_keyName :: string
  body_keyValue :: string
  body_meta :: "string object option"

text \<open>
  An event carries the method, the endpoint the path resolves to, the token of the
  cookie and of the \<^verbatim>\<open>Authorization\<close> header (empty when there is none), and the
  body, \<open>None\<close> when \<^verbatim>\<open>JSON.parse(event.body)\<close> throws. Routing and CORS headers are
  left out.
\<close>

record event =
  httpMethod :: string
  endpoint :: string
  cookie_token :: string
  bearer_token :: string
  body :: "request option"

datatype reply =
  ErrorBody string
  | SuccessBody
  | LoginBody string
  | VaultInfoBody string "string option"
  | ListBody "listing list object"
  | KeyBody entry
  | InheritedBody string
  | EmptyBody

record response =
  statusCode :: nat
  payload :: reply

text \<open>
  The key-value store: \<^verbatim>\<open>get\<close> gives the value or nothing (the empty string here,
  both are falsy), \<^verbatim>\<open>set\<close> stores the value or throws.
\<close>

type_synonym kv = "string \<Rightarrow> string option"

text \<open>
  What one invocation draws from outside: the random bytes of a new salt and of the IV,
  the clock at the two \<^verbatim>\<open>new Date()\<close> calls, and the keys for which \<^verbatim>\<open>kvStore.set\<close>
  throws.
\<close>

record world =
  random_salt :: bytes
  random_iv :: bytes
  date_added :: string
  date_modified :: string
  set_throws :: "string \<Rightarrow> bool"

definition kv_get :: "kv \<Rightarrow> string \<Rightarrow> string" where
  "kv_get store k = (case store k of None \<Rightarrow> [] | Some v \<Rightarrow> v)"

definition kv_set :: "world \<Rightarrow> kv \<Rightarrow> string \<Rightarrow> string \<Rightarrow> js_error + kv" where
  "kv_set w store k v = (if set_throws w k then Inl StoreError else Inr (store(k \<mapsto> v)))"

definition salt_key :: "string \<Rightarrow> string" where
  "salt_key username = ''user:'' @ username @ '':salt''"

definition vault_key :: "string \<Rightarrow> string" where
  "vault_key username = ''user:'' @ username @ '':vault''"

definition lastModified_key :: "string \<Rightarrow> string" where
  "lastModified_key username = ''user:'' @ username @ '':lastModified''"

definition generateToken :: "node_lib \<Rightarrow> string \<Rightarrow> string" where
  "generateToken lib userId = jwt_sign lib userId"

definition verifyToken :: "node_lib \<Rightarrow> string \<Rightarrow> string option" where
  "verifyToken lib token = jwt_verify lib token"

definition getAuthUser :: "node_lib \<Rightarrow> event \<Rightarrow> string option" where
  "getAuthUser lib ev =
     (let token = (if cookie_token ev = [] then bearer_token ev else cookie_token ev)
      in if token = [] then None else verifyToken lib token)"

section \<open>The serverless function: the vault operations\<close>

text \<open>
  The body of each \<^verbatim>\<open>case\<close> of the operation switch up to the point where it returns
  or starts to save: \<open>Respond\<close> is a \<^verbatim>\<open>return\<close> with no write, \<open>Save\<close> hands the
  mutated vault to \<^verbatim>\<open>encrypt\<close> and \<^verbatim>\<open>kvStore.set\<close>.

  When \<^verbatim>\<open>vault[platform]\<close> is not an own property but a member of
  \<^verbatim>\<open>Object.prototype\<close>, the code goes on to read, write or delete properties of that
  shared built-in object. Its state belongs to the process, not to the vault, and is not
  modelled: the operation ends as \<open>Builtin\<close>. Everything else is the code in a process
  whose built-in objects are as Node creates them.
\<close>

datatype op_result = Respond response | Save vault | Builtin

text \<open>
  \<^verbatim>\<open>Object.keys(vault[platform] || {}).map(keyName => ({name, added, meta}))\<close>: the
  keys are the own properties, so each \<^verbatim>\<open>vault[platform][keyName]\<close> is the entry listed
  with its key.
\<close>

definition list_keys_of :: "entry object \<Rightarrow> listing list" where
  "list_keys_of keys =
     map (\<lambda>(keyName, e). \<lparr>l_name = keyName, l_added = e_added e, l_meta = e_meta e\<rparr>) keys"

definition op_list :: "vault \<Rightarrow> listing list object" where
  "op_list vault =
     fold (\<lambda>(platform, keys) result. js_set result platform (list_keys_of keys)) vault []"

definition op_get :: "vault \<Rightarrow> string \<Rightarrow> string \<Rightarrow> op_result" where
  "op_get vault platform keyName =
     (if platform = [] \<or> keyName = []
      then Respond \<lparr>statusCode = 400, payload = ErrorBody ''Platform and key name required''\<rparr>
      else case js_get vault platform of
        Inherited \<Rightarrow> Builtin
      | found \<Rightarrow>
          (let platformData = (case found of Own d \<Rightarrow> d | _ \<Rightarrow> [])
           in case js_get platformData keyName of
                Undefined \<Rightarrow> Respond \<lparr>statusCode = 404, payload = ErrorBody ''Key not found''\<rparr>
              | Own keyData \<Rightarrow> Respond \<lparr>statusCode = 200, payload = KeyBody keyData\<rparr>
              | Inherited \<Rightarrow> Respond \<lparr>statusCode = 200, payload = InheritedBody keyName\<rparr>))"

definition op_add ::
  "vault \<Rightarrow> string \<Rightarrow> string \<Rightarrow> string \<Rightarrow> string object option \<Rightarrow> string \<Rightarrow> op_result" where
  "op_add vault platform keyName keyValue meta now =
     (if platform = [] \<or> keyName = [] \<or> keyValue = []
      then Respond \<lparr>statusCode = 400,
                    payload = ErrorBody ''Platform, key name, and value required''\<rparr>
      else
        let vault1 = (case js_get vault platform of
                        Undefined \<Rightarrow> js_set vault platform []
                      | _ \<Rightarrow> vault)
        in case js_get vault1 platform of
             Own keys \<Rightarrow>
               Save (js_set vault1 platform
                       (js_set keys keyName
                          \<lparr>e_value = keyValue, e_added = now,
                           e_meta = (case meta of None \<Rightarrow> [] | Some m \<Rightarrow> m)\<rparr>))
           | _ \<Rightarrow> Builtin)"

definition op_remove :: "vault \<Rightarrow> string \<Rightarrow> string \<Rightarrow> op_result" where
  "op_remove vault platform keyName =
     (if platform = [] \<or> keyName = []
      then Respond \<lparr>statusCode = 400, payload = ErrorBody ''Platform and key name required''\<rparr>
      else case js_get vault platform of
        Undefined \<Rightarrow> Respond \<lparr>statusCode = 404, payload = ErrorBody ''Key not found''\<rparr>
      | Inherited \<Rightarrow> Builtin
      | Own keys \<Rightarrow>
          (case js_get keys keyName of
             Undefined \<Rightarrow> Respond \<lparr>statusCode = 404, payload = ErrorBody ''Key not found''\<rparr>
           | _ \<Rightarrow>
               (let keys' = js_delete keys keyName
                in if length (object_keys keys') = 0
                   then Save (js_delete vault platform)
                   else Save (js_set vault platform keys'))))"

definition run_operation :: "request \<Rightarrow> world \<Rightarrow> vault \<Rightarrow> op_result" where
  "run_operation req w vault =
     (let operation = body_operation req; platform = body_platform req;
          keyName = body_keyName req; keyValue = body_keyValue req; meta = body_meta req
      in if operation = ''list''
           then Respond \<lparr>statusCode = 200, payload = ListBody (op_list vault)\<rparr>
         else if operation = ''get'' then op_get vault platform keyName
         else if operation = ''add''
           then op_add vault platform keyName keyValue meta (date_added w)
         else if operation = ''remove'' then op_remove vault platform keyName
         else Respond \<lparr>statusCode = 400, payload = ErrorBody ''Invalid operation''\<rparr>)"

section \<open>Names, invariant and sequences of mutations\<close>

text \<open>
  A name is ordinary when no plain object inherits a property of that name. The
  invariant of the data model: no platform with an empty inner mapping. A sequence of
  mutations runs the \<^verbatim>\<open>add\<close> and \<^verbatim>\<open>remove\<close> operations one after the other, each on
  the vault the one before saved (or left as it was, when it answered without saving).
  It is the code's behaviour for sequences whose platforms are ordinary names: no
  operation then reaches a built-in object.
\<close>

definition ordinary :: "string \<Rightarrow> bool" where
  "ordinary k = (k \<notin> set Object_prototype)"

definition no_empty_platform :: "vault \<Rightarrow> bool" where
  "no_empty_platform vault = list_all (\<lambda>(platform, keys). keys \<noteq> []) vault"

datatype mutation =
  Add string string string "string object option" string
  | Remove string string

fun platform_of :: "mutation \<Rightarrow> string" where
  "platform_of (Add platform keyName keyValue meta now) = platform"
| "platform_of (Remove platform keyName) = platform"

fun key_of :: "mutation \<Rightarrow> string" where
  "key_of (Add platform keyName keyValue meta now) = keyName"
| "key_of (Remove platform keyName) = keyName"

fun saved :: "vault \<Rightarrow> op_result \<Rightarrow> vault" where
  "saved vault (Save vault') = vault'"
| "saved vault (Respond r) = vault"
| "saved vault Builtin = vault"

fun mutate :: "vault \<Rightarrow> mutation \<Rightarrow> vault" where
  "mutate vault (Add platform keyName keyValue meta now) =
     saved vault (op_add vault platform keyName keyValue meta now)"
| "mutate vault (Remove platform keyName) = saved vault (op_remove vault platform keyName)"

section \<open>The serverless function: the handler\<close>

text \<open>
  What a \<^verbatim>\<open>try\<close> block does: it returns a response, or throws, each with the store as
  it then is, or it leaves the model (\<open>Builtin\<close> above).
\<close>

datatype attempt = Return response kv | Throw js_error kv | Outside

definition handler_login :: "node_lib \<Rightarrow> world \<Rightarrow> kv \<Rightarrow> event \<Rightarrow> attempt" where
  "handler_login lib w store ev =
     (if httpMethod ev \<noteq> ''POST''
      then Return \<lparr>statusCode = 405, payload = ErrorBody ''Method not allowed''\<rparr> store
      else case body ev of
        None \<Rightarrow> Throw SyntaxError store
      | Some req \<Rightarrow>
          (let username = body_username req; masterPassword = body_masterPassword req
           in if username = [] \<or> masterPassword = []
              then Return \<lparr>statusCode = 400,
                           payload = ErrorBody ''Username and master password required''\<rparr> store
              else
                case (if kv_get store (salt_key username) = []
                      then (let salt = to_hex lib (random_salt w)
                            in case kv_set w store (salt_key username) salt of
                                 Inl err \<Rightarrow> Inl err
                               | Inr store1 \<Rightarrow> Inr (salt, store1))
                      else Inr (kv_get store (salt_key username), store)) of
                  Inl err \<Rightarrow> Throw err store
                | Inr (salt, store1) \<Rightarrow>
                    (case (if kv_get store1 (vault_key username) = []
                           then kv_set w store1 (vault_key username)
                                  (encrypt lib (random_iv w) [] masterPassword salt)
                           else Inr store1) of
                       Inl err \<Rightarrow> Throw err store1
                     | Inr store2 \<Rightarrow>
                         Return \<lparr>statusCode = 200,
                                 payload = LoginBody (generateToken lib username)\<rparr> store2)))"

definition handler_vault_post ::
  "node_lib \<Rightarrow> world \<Rightarrow> kv \<Rightarrow> event \<Rightarrow> string \<Rightarrow> string \<Rightarrow> string \<Rightarrow> attempt" where
  "handler_vault_post lib w store ev username salt encryptedVault =
     (case body ev of
        None \<Rightarrow> Throw SyntaxError store
      | Some req \<Rightarrow>
          (let masterPassword = body_masterPassword req
           in if masterPassword = []
              then Return \<lparr>statusCode = 400, payload = ErrorBody ''Master password required''\<rparr>
                     store
              else
                case decrypt lib encryptedVault masterPassword salt of
                  Inl err \<Rightarrow>
                    Return \<lparr>statusCode = 401, payload = ErrorBody ''Invalid master password''\<rparr>
                      store
                | Inr vault \<Rightarrow>
                    (case run_operation req w vault of
                       Builtin \<Rightarrow> Outside
                     | Respond r \<Rightarrow> Return r store
                     | Save vault' \<Rightarrow>
                         (let updatedVault = encrypt lib (random_iv w) vault' masterPassword salt
                          in case kv_set w store (vault_key username) updatedVault of
                               Inl err \<Rightarrow>
                                 Return \<lparr>statusCode = 401,
                                         payload = ErrorBody ''Invalid master password''\<rparr> store
                             | Inr store1 \<Rightarrow>
                                 (case kv_set w store1 (lastModified_key username)
                                         (date_modified w) of
                                    Inl err \<Rightarrow>
                                      Return \<lparr>statusCode = 401,
                                              payload = ErrorBody ''Invalid master password''\<rparr>
                                        store1
                                  | Inr store2 \<Rightarrow>
                                      Return \<lparr>statusCode = 200, payload = SuccessBody\<rparr>
                                        store2)))))"

definition handler_vault :: "node_lib \<Rightarrow> world \<Rightarrow> kv \<Rightarrow> event \<Rightarrow> attempt" where
  "handler_vault lib w store ev =
     (case getAuthUser lib ev of
        None \<Rightarrow> Return \<lparr>statusCode = 401, payload = ErrorBody ''Unauthorized''\<rparr> store
      | Some username \<Rightarrow>
          (let salt = kv_get store (salt_key username)
           in if salt = []
              then Return \<lparr>statusCode = 404, payload = ErrorBody ''User not found''\<rparr> store
              else
                let encryptedVault = kv_get store (vault_key username)
                in if encryptedVault = []
                   then Return \<lparr>statusCode = 404, payload = ErrorBody ''Vault not found''\<rparr> store
                   else if httpMethod ev = ''GET''
                   then Return
                          \<lparr>statusCode = 200,
                           payload = VaultInfoBody username
                             (if kv_get store (lastModified_key username) = [] then None
                              else Some (kv_get store (lastModified_key username)))\<rparr>
                          store
                   else if httpMethod ev = ''POST''
                   then handler_vault_post lib w store ev username salt encryptedVault
                   else Return \<lparr>statusCode = 405, payload = ErrorBody ''Method not allowed''\<rparr>
                          store))"

text \<open>
  The handler gives the response and the store it leaves, or \<open>None\<close> where the run left
  the model. The outer \<^verbatim>\<open>catch\<close> answers 500.
\<close>

definition handler :: "node_lib \<Rightarrow> world \<Rightarrow> kv \<Rightarrow> event \<Rightarrow> (response \<times> kv) option" where
  "handler lib w store ev =
     (if httpMethod ev = ''OPTIONS''
      then Some (\<lparr>statusCode = 204, payload = EmptyBody\<rparr>, store)
      else
        case (if endpoint ev = ''login'' then handler_login lib w store ev
              else if endpoint ev = ''vault'' then handler_vault lib w store ev
              else if endpoint ev = ''logout''
                then Return \<lparr>statusCode = 200, payload = SuccessBody\<rparr> store
              else Return \<lparr>statusCode = 404, payload = ErrorBody ''Not found''\<rparr> store) of
          Return r store' \<Rightarrow> Some (r, store')
        | Throw err store' \<Rightarrow>
            Some (\<lparr>statusCode = 500, payload = ErrorBody ''Internal server error''\<rparr>, store')
        | Outside \<Rightarrow> None)"

section \<open>The command-line vault (class \<^verbatim>\<open>ApiKeymaster\<close>)\<close>

text \<open>
  The class keeps the password and the decrypted vault in memory and the encrypted vault
  in one file. \<open>km_masterPassword\<close> is \<open>None\<close> for \<^verbatim>\<open>null\<close>. The file is the raw
  \<^verbatim>\<open>IV + AuthTag + EncryptedData\<close>; \<^verbatim>\<open>writeFileSync\<close> throws when the world says so
  for the file's name.
\<close>

record keymaster =
  km_masterPassword :: "string option"
  km_vault :: vault
  km_initialized :: bool

definition vaultFile :: string where
  "vaultFile = ''vault.enc''"

definition km_deriveKey :: "node_lib \<Rightarrow> string \<Rightarrow> bytes" where
  "km_deriveKey lib masterPassword = scryptSync lib masterPassword ''api-keymaster-salt'' 32"

definition saveVault :: "node_lib \<Rightarrow> world \<Rightarrow> keymaster \<Rightarrow> js_error + bytes" where
  "saveVault lib w this =
     (case km_masterPassword this of
        None \<Rightarrow> Inl TypeError
      | Some masterPassword \<Rightarrow>
          (let key = km_deriveKey lib masterPassword;
               iv = random_iv w;
               jsonData = JSON_stringify lib (km_vault this);
               sealed = gcm_seal lib key iv jsonData;
               encrypted = fst sealed;
               authTag = snd sealed;
               dataToStore = iv @ authTag @ encrypted
           in if set_throws w vaultFile then Inl StoreError else Inr dataToStore))"

definition parseEncryptedData :: "bytes \<Rightarrow> bytes \<times> bytes \<times> bytes" where
  "parseEncryptedData data = (take 16 data, take 16 (drop 16 data), drop 32 data)"

text \<open>
  \<^verbatim>\<open>unlockVault\<close> with the password typed at the prompt and the bytes of the file:
  it resolves with the vault in memory or rejects with the error caught, whichever it
  is.
\<close>

definition unlockVault :: "node_lib \<Rightarrow> keymaster \<Rightarrow> string \<Rightarrow> bytes \<Rightarrow> js_error + keymaster" where
  "unlockVault lib this password encryptedData =
     (case parseEncryptedData encryptedData of
        (iv, authTag, encryptedVault) \<Rightarrow>
          (case gcm_open lib (km_deriveKey lib password) iv authTag encryptedVault of
             Inl err \<Rightarrow> Inl err
           | Inr decrypted \<Rightarrow>
               (case JSON_parse lib decrypted of
                  Inl err \<Rightarrow> Inl err
                | Inr v \<Rightarrow> Inr (this\<lparr>km_masterPassword := Some password, km_vault := v\<rparr>))))"

text \<open>
  A method gives what it returns or throws, the object as the call leaves it and the
  file as the call leaves it. It is \<open>Unmodelled\<close> where the code touches a built-in
  object, and in \<^verbatim>\<open>addKey\<close> for a key named \<^verbatim>\<open>__proto__\<close>: the assignment then
  replaces the prototype of an object that stays in memory, which the own-property
  lists do not record. In \<^verbatim>\<open>getKey\<close>, \<open>None\<close> is \<^verbatim>\<open>null\<close> or \<^verbatim>\<open>undefined\<close>.
\<close>

datatype 'a outcome = Returned 'a keymaster bytes | Thrown js_error keymaster bytes | Unmodelled

definition addKey ::
  "node_lib \<Rightarrow> world \<Rightarrow> keymaster \<Rightarrow> bytes \<Rightarrow> string \<Rightarrow> string \<Rightarrow> string \<Rightarrow> string object
     \<Rightarrow> bool outcome" where
  "addKey lib w this file platform keyName keyValue meta =
     (if \<not> km_initialized this then Thrown (Error ''Vault not initialized'') this file
      else
        let vault1 = (case js_get (km_vault this) platform of
                        Undefined \<Rightarrow> js_set (km_vault this) platform []
                      | _ \<Rightarrow> km_vault this)
        in case js_get vault1 platform of
             Own keys \<Rightarrow>
               (if keyName = ''__proto__'' \<and> map_of keys keyName = None then Unmodelled
                else
                  let this' = this\<lparr>km_vault :=
                        js_set vault1 platform
                          (js_set keys keyName
                             \<lparr>e_value = keyValue, e_added = date_added w, e_meta = meta\<rparr>)\<rparr>
                  in case saveVault lib w this' of
                       Inl err \<Rightarrow> Thrown err this' file
                     | Inr written \<Rightarrow> Returned True this' written)
           | _ \<Rightarrow> Unmodelled)"

definition getKey :: "keymaster \<Rightarrow> string \<Rightarrow> string \<Rightarrow> (js_error + string option) option" where
  "getKey this platform keyName =
     (if \<not> km_initialized this then Some (Inl (Error ''Vault not initialized''))
      else case js_get (km_vault this) platform of
        Undefined \<Rightarrow> Some (Inr None)
      | Inherited \<Rightarrow> None
      | Own keys \<Rightarrow>
          (case js_get keys keyName of
             Undefined \<Rightarrow> Some (Inr None)
           | Own e \<Rightarrow> Some (Inr (Some (e_value e)))
           | Inherited \<Rightarrow> Some (Inr None)))"

definition listKeys :: "keymaster \<Rightarrow> js_error + listing list object" where
  "listKeys this =
     (if \<not> km_initialized this then Inl (Error ''Vault not initialized'')
      else Inr (fold (\<lambda>(platform, keys) result. js_set result platform (list_keys_of keys))
                  (km_vault this) []))"

definition removeKey ::
  "node_lib \<Rightarrow> world \<Rightarrow> keymaster \<Rightarrow> bytes \<Rightarrow> string \<Rightarrow> string \<Rightarrow> bool outcome" where
  "removeKey lib w this file platform keyName =
     (if \<not> km_initialized this then Thrown (Error ''Vault not initialized'') this file
      else case js_get (km_vault this) platform of
        Undefined \<Rightarrow>
          Thrown (Error (''Key not found: '' @ platform @ ''/'' @ keyName)) this file
      | Inherited \<Rightarrow> Unmodelled
      | Own keys \<Rightarrow>
          (case js_get keys keyName of
             Undefined \<Rightarrow>
               Thrown (Error (''Key not found: '' @ platform @ ''/'' @ keyName)) this file
           | _ \<Rightarrow>
               (let keys' = js_delete keys keyName;
                    this' = this\<lparr>km_vault :=
                      (if length (object_keys keys') = 0
                       then js_delete (km_vault this) platform
                       else js_set (km_vault this) platform keys')\<rparr>
                in case saveVault lib w this' of
                     Inl err \<Rightarrow> Thrown err this' file
                   | Inr written \<Rightarrow> Returned True this' written)))"

section \<open>A small instance of the library\<close>

text \<open>
  The theorems below hold for every library that meets their hypotheses. To show that
  the hypotheses can be met, and to run the code on concrete requests, the library's
  interface is instantiated with small functions: a key that is the password and the
  salt padded to the length asked for, a cipher that reverses the text and tags it with
  the first 16 bytes of the key, identity encodings, a JSON printer without escapes
  whose parser knows the vaults of the examples, and a token that is the user's name
  after a prefix. It stands in for Node only at the inputs of the examples.
\<close>

definition demo_tag :: "bytes \<Rightarrow> bytes" where
  "demo_tag key = take 16 (key @ replicate 16 (CHR ''0''))"

definition quoted :: "string \<Rightarrow> string" where
  "quoted s = [CHR 0x22] @ s @ [CHR 0x22]"

fun commas :: "string list \<Rightarrow> string" where
  "commas [] = []"
| "commas [x] = x"
| "commas (x # y # zs) = x @ '','' @ commas (y # zs)"

definition demo_object :: "('a \<Rightarrow> string) \<Rightarrow> 'a object \<Rightarrow> string" where
  "demo_object f obj = ''{'' @ commas (map (\<lambda>(k, v). quoted k @ '':'' @ f v) obj) @ ''}''"

definition demo_entry :: "entry \<Rightarrow> string" where
  "demo_entry e =
     ''{'' @ quoted ''value'' @ '':'' @ quoted (e_value e) @ '','' @
     quoted ''added'' @ '':'' @ quoted (e_added e) @ '','' @
     quoted ''meta'' @ '':'' @ demo_object quoted (e_meta e) @ ''}''"

definition demo_stringify :: "vault \<Rightarrow> string" where
  "demo_stringify v = demo_object (demo_object demo_entry) v"

definition github_token :: entry where
  "github_token = \<lparr>e_value = ''ghp_x'', e_added = ''2024-05-01T10:00:00.000Z'', e_meta = []\<rparr>"

definition demo_vaults :: "vault list" where
  "demo_vaults = [[], [(''github'', [(''token'', github_token)])], [(''github'', [])]]"

definition demo_parse :: "string \<Rightarrow> js_error + vault" where
  "demo_parse s =
     (case find (\<lambda>v. demo_stringify v = s) demo_vaults of
        Some v \<Rightarrow> Inr v
      | None \<Rightarrow> Inl SyntaxError)"

definition demo_lib :: node_lib where
  "demo_lib =
     \<lparr>scryptSync = (\<lambda>password salt keylen.
         take keylen (password @ salt @ replicate keylen (CHR ''#''))),
      gcm_seal = (\<lambda>key iv pt. (rev pt, demo_tag key)),
      gcm_open = (\<lambda>key iv authTag ct.
         if iv = [] then Inl InvalidIV
         else if authTag = demo_tag key then Inr (rev ct)
         else Inl AuthFailure),
      to_base64 = (\<lambda>bs. bs),
      from_base64 = (\<lambda>s. s),
      to_hex = (\<lambda>bs. bs),
      JSON_stringify = demo_stringify,
      JSON_parse = demo_parse,
      jwt_sign = (\<lambda>userId. ''jwt:'' @ userId),
      jwt_verify = (\<lambda>token. if take 4 token = ''jwt:'' then Some (drop 4 token) else None)\<rparr>"

definition demo_world :: world where
  "demo_world =
     \<lparr>random_salt = ''5a17c0ffee5a17c0'',
      random_iv = ''0123456789abcdef'',
      date_added = ''2024-05-01T10:00:00.000Z'',
      date_modified = ''2024-05-01T10:00:00.001Z'',
      set_throws = (\<lambda>k. False)\<rparr>"

text \<open>
  A store that holds the salt of user \<^verbatim>\<open>alice\<close> and a vault encrypted under the password
  \<^verbatim>\<open>correcthorse123\<close>, and a POST request that carries her token.
\<close>

definition alice_store :: "vault \<Rightarrow> kv" where
  "alice_store v =
     [salt_key ''alice'' \<mapsto> ''5a17c0ffee5a17c0'',
      vault_key ''alice'' \<mapsto>
        encrypt demo_lib ''fedcba9876543210'' v ''correcthorse123'' ''5a17c0ffee5a17c0'']"

definition alice_posts ::
  "string \<Rightarrow> string \<Rightarrow> string \<Rightarrow> string \<Rightarrow> string \<Rightarrow> string \<Rightarrow> event" where
  "alice_posts ep masterPassword operation platform keyName keyValue =
     \<lparr>httpMethod = ''POST'', endpoint = ep, cookie_token = ''jwt:alice'', bearer_token = [],
      body = Some \<lparr>body_username = ''alice'', body_masterPassword = masterPassword,
                   body_operation = operation, body_platform = platform,
                   body_keyName = keyName, body_keyValue = keyValue, body_meta = None\<rparr>\<rparr>"

text \<open>The command-line vault of the same user, unlocked.\<close>

definition alice_cli :: "vault \<Rightarrow> keymaster" where
  "alice_cli v =
     \<lparr>km_masterPassword = Some ''correcthorse123'', km_vault = v, km_initialized = True\<rparr>"

section \<open>Two vaults that differ only in their secret values\<close>

definition redact :: "vault \<Rightarrow> vault" where
  "redact vault =
     map (\<lambda>(platform, keys). (platform, map (\<lambda>(keyName, e). (keyName, e\<lparr>e_value := []\<rparr>)) keys))
       vault"

section \<open>Unfolding the code on concrete inputs\<close>

lemmas demo_defs = demo_lib_def demo_world_def demo_tag_def demo_stringify_def demo_parse_def
  demo_vaults_def demo_object_def demo_entry_def quoted_def github_token_def alice_store_def
  alice_posts_def

lemmas code_defs = handler_def handler_login_def handler_vault_def handler_vault_post_def
  getAuthUser_def verifyToken_def generateToken_def kv_get_def kv_set_def salt_key_def
  vault_key_def lastModified_key_def encrypt_def decrypt_def decrypt_utf8_def deriveKey_def
  run_operation_def op_add_def op_get_def op_remove_def op_list_def list_keys_of_def js_get_def
  js_set_def js_delete_def object_keys_def Object_prototype_def is_array_index_def
  is_digit_def dec_val_def digit_val_def Let_def

lemma aead_sound_demo: "aead_sound demo_lib"
  by (auto simp add: aead_sound_def demo_lib_def demo_tag_def)

lemma base64_sound_demo: "base64_sound demo_lib"
  by (simp add: base64_sound_def demo_lib_def)

lemma stream_cipher_demo: "stream_cipher demo_lib"
  by (auto simp add: stream_cipher_def demo_lib_def split: if_splits)

lemma jwt_sound_demo: "jwt_sound demo_lib"
  by (simp add: jwt_sound_def demo_lib_def)

section \<open>Reading and writing properties\<close>

lemma proto_not_ordinary: "\<not> ordinary ''__proto__''"
  by (simp add: ordinary_def Object_prototype_def)

lemma map_of_ins_index: "map_of (ins_index k v obj) = (map_of obj)(k \<mapsto> v)"
proof (induction obj)
  case Nil
  show ?case by simp
next
  case (Cons p rest)
  obtain k' v' where p: "p = (k', v')" by (cases p)
  show ?case
  proof (cases "is_array_index k' \<and> dec_val k' < dec_val k")
    case True
    then have "k' \<noteq> k" by auto
    with True Cons p show ?thesis by (auto simp: fun_eq_iff)
  next
    case False
    with p show ?thesis by (auto simp: fun_eq_iff)
  qed
qed

lemma map_of_snoc: "map_of obj k = None \<Longrightarrow> map_of (obj @ [(k, v)]) = (map_of obj)(k \<mapsto> v)"
  by (auto simp: fun_eq_iff map_add_def split: option.splits)

lemma map_of_js_set:
  "map_of (js_set obj k v) =
     (if map_of obj k = None \<and> k = ''__proto__'' then map_of obj else (map_of obj)(k \<mapsto> v))"
proof (cases "map_of obj k")
  case None
  then show ?thesis
    using map_of_snoc [OF None, of v] by (simp add: js_set_def map_of_ins_index)
next
  case (Some old)
  then show ?thesis by (simp add: js_set_def AList.update_conv')
qed

lemma map_of_js_delete: "map_of (js_delete obj k) = (map_of obj)(k := None)"
  by (simp add: js_delete_def AList.delete_conv')

lemma js_get_Own: "js_get obj k = Own v \<longleftrightarrow> map_of obj k = Some v"
  by (auto simp: js_get_def split: option.splits)

lemma js_get_Undefined: "js_get obj k = Undefined \<longleftrightarrow> map_of obj k = None \<and> ordinary k"
  by (auto simp: js_get_def ordinary_def split: option.splits)

lemma js_get_Inherited: "js_get obj k = Inherited \<longleftrightarrow> map_of obj k = None \<and> \<not> ordinary k"
  by (auto simp: js_get_def ordinary_def split: option.splits)

lemma ins_index_not_empty: "ins_index k v obj \<noteq> []"
  by (cases obj) (auto split: if_splits)

lemma js_set_not_empty: "k \<noteq> ''__proto__'' \<Longrightarrow> js_set obj k v \<noteq> []"
  by (simp add: js_set_def ins_index_not_empty split: option.splits)

text \<open>Replacing the value of a property just created.\<close>

lemma update_ins_index:
  "map_of obj k = None \<Longrightarrow> AList.update k v (ins_index k v' obj) = ins_index k v obj"
  by (induction obj) auto

lemma update_snoc:
  "map_of obj k = None \<Longrightarrow> AList.update k v (obj @ [(k, v')]) = obj @ [(k, v)]"
  by (induction obj) auto

lemma js_set_js_set:
  "js_set (js_set obj k v') k v = js_set obj k v" if "map_of obj k = None"
proof (cases "k = ''__proto__''")
  case True
  with that show ?thesis by (simp add: js_set_def)
next
  case False
  show ?thesis
  proof (cases "is_array_index k")
    case True
    with False that show ?thesis
      by (simp add: js_set_def map_of_ins_index update_ins_index)
  next
    case no_index: False
    have "map_of (obj @ [(k, v')]) k = Some v'"
      using map_of_snoc [OF that, of v'] by simp
    with False no_index that show ?thesis
      by (simp add: js_set_def update_snoc del: map_of_append)
  qed
qed

lemma list_all_ins_index: "list_all P (ins_index k v obj) \<longleftrightarrow> P (k, v) \<and> list_all P obj"
  by (induction obj) (auto split: if_splits)

lemma list_all_update:
  "list_all P obj \<Longrightarrow> P (k, v) \<Longrightarrow> list_all P (AList.update k v obj)"
  by (induction obj) auto

lemma list_all_js_set: "list_all P obj \<Longrightarrow> P (k, v) \<Longrightarrow> list_all P (js_set obj k v)"
  by (auto simp: js_set_def list_all_ins_index list_all_update split: option.splits)

lemma list_all_js_delete: "list_all P obj \<Longrightarrow> list_all P (js_delete obj k)"
  by (induction obj) (auto simp: js_delete_def)

section \<open>Encryption and decryption\<close>

lemma from_base64_encrypt:
  assumes "base64_sound lib"
  shows "from_base64 lib (encrypt lib iv V P salt) =
           iv @ snd (gcm_seal lib (deriveKey lib P salt) iv (JSON_stringify lib V))
              @ fst (gcm_seal lib (deriveKey lib P salt) iv (JSON_stringify lib V))"
  using assms unfolding base64_sound_def encrypt_def Let_def by simp

lemma decrypt_utf8_encrypt:
  assumes "aead_sound lib" and "base64_sound lib" and "length iv = 16"
  shows "decrypt_utf8 lib (encrypt lib iv V P salt) P salt = Inr (JSON_stringify lib V)"
proof -
  let ?key = "deriveKey lib P salt"
  let ?sealed = "gcm_seal lib ?key iv (JSON_stringify lib V)"
  from assms(1,3) have tag: "length (snd ?sealed) = 16"
    and opened: "gcm_open lib ?key iv (snd ?sealed) (fst ?sealed) = Inr (JSON_stringify lib V)"
    unfolding aead_sound_def by blast+
  show ?thesis
    using tag opened assms(3)
    unfolding decrypt_utf8_def Let_def from_base64_encrypt [OF assms(2)] by simp
qed

text \<open>
  The command-line class writes the same three segments, without base64 and under its
  fixed salt; \<^verbatim>\<open>unlockVault\<close> reads back what \<^verbatim>\<open>saveVault\<close> wrote.
\<close>

lemma saveVault_unlockVault:
  assumes "aead_sound lib" and "length (random_iv w) = 16"
    and "km_masterPassword this = Some P" and "\<not> set_throws w vaultFile"
  shows "\<exists>data. saveVault lib w this = Inr data \<and>
           unlockVault lib that P data =
             (case JSON_parse lib (JSON_stringify lib (km_vault this)) of
                Inl err \<Rightarrow> Inl err
              | Inr v \<Rightarrow> Inr (that\<lparr>km_masterPassword := Some P, km_vault := v\<rparr>))"
proof -
  let ?key = "km_deriveKey lib P"
  let ?sealed = "gcm_seal lib ?key (random_iv w) (JSON_stringify lib (km_vault this))"
  let ?data = "random_iv w @ snd ?sealed @ fst ?sealed"
  from assms(1,2) have tag: "length (snd ?sealed) = 16"
    and opened: "gcm_open lib ?key (random_iv w) (snd ?sealed) (fst ?sealed)
                   = Inr (JSON_stringify lib (km_vault this))"
    unfolding aead_sound_def by blast+
  have saved: "saveVault lib w this = Inr ?data"
    using assms(3,4) by (simp add: saveVault_def Let_def)
  have "parseEncryptedData ?data = (random_iv w, snd ?sealed, fst ?sealed)"
    using tag assms(2) by (simp add: parseEncryptedData_def)
  then have "unlockVault lib that P ?data =
             (case JSON_parse lib (JSON_stringify lib (km_vault this)) of
                Inl err \<Rightarrow> Inl err
              | Inr v \<Rightarrow> Inr (that\<lparr>km_masterPassword := Some P, km_vault := v\<rparr>))"
    using opened by (simp add: unlockVault_def)
  with saved show ?thesis by blast
qed

text \<open>
  C1. For every vault \<open>V\<close>, password \<open>P\<close> and salt: what \<^verbatim>\<open>encrypt\<close> makes of \<open>V\<close> under
  the key derived from \<open>P\<close> and the salt, \<^verbatim>\<open>decrypt\<close> under the same password and salt
  turns back into the serialization of \<open>V\<close>, which it then parses; and what
  \<^verbatim>\<open>saveVault\<close> of the class writes, \<^verbatim>\<open>unlockVault\<close> reads back in the same way. This
  holds for every 16-byte IV the encryption draws, for a cipher whose decryption inverts
  its encryption with a 16-byte tag, and a base64 decoder that inverts the encoder.
\<close>

theorem encrypt_decrypt_roundtrip:
  assumes "aead_sound lib" and "base64_sound lib" and "length iv = 16"
  shows "decrypt_utf8 lib (encrypt lib iv V P salt) P salt = Inr (JSON_stringify lib V)
       \<and> decrypt lib (encrypt lib iv V P salt) P salt = JSON_parse lib (JSON_stringify lib V)
       \<and> (km_masterPassword this = Some P \<and> km_vault this = V \<and> random_iv w = iv
            \<and> \<not> set_throws w vaultFile \<longrightarrow>
          (\<exists>data. saveVault lib w this = Inr data \<and>
             unlockVault lib that P data =
               (case JSON_parse lib (JSON_stringify lib V) of
                  Inl err \<Rightarrow> Inl err
                | Inr v \<Rightarrow> Inr (that\<lparr>km_masterPassword := Some P, km_vault := v\<rparr>))))"
proof -
  have "\<exists>data. saveVault lib w this = Inr data \<and>
             unlockVault lib that P data =
               (case JSON_parse lib (JSON_stringify lib V) of
                  Inl err \<Rightarrow> Inl err
                | Inr v \<Rightarrow> Inr (that\<lparr>km_masterPassword := Some P, km_vault := v\<rparr>))"
    if "km_masterPassword this = Some P" and "km_vault this = V" and "random_iv w = iv"
      and "\<not> set_throws w vaultFile"
    using saveVault_unlockVault [OF assms(1) _ that(1,4), of that] that(2,3) assms(3) by simp
  then show ?thesis
    using decrypt_utf8_encrypt [OF assms] by (simp add: decrypt_def)
qed

theorem encrypt_decrypt_roundtrip_witness:
  "aead_sound demo_lib \<and> base64_sound demo_lib \<and> length ''0123456789abcdef'' = 16
   \<and> decrypt_utf8 demo_lib
        (encrypt demo_lib ''0123456789abcdef'' [(''github'', [(''token'', github_token)])]
           ''correcthorse123'' ''5a17c0ffee5a17c0'')
        ''correcthorse123'' ''5a17c0ffee5a17c0''
      = Inr (demo_stringify [(''github'', [(''token'', github_token)])])
   \<and> decrypt demo_lib
        (encrypt demo_lib ''0123456789abcdef'' [(''github'', [(''token'', github_token)])]
           ''correcthorse123'' ''5a17c0ffee5a17c0'')
        ''correcthorse123'' ''5a17c0ffee5a17c0''
      = Inr [(''github'', [(''token'', github_token)])]
   \<and> (\<exists>data. saveVault demo_lib demo_world
                 (alice_cli [(''github'', [(''token'', github_token)])]) = Inr data
          \<and> unlockVault demo_lib (alice_cli []) ''correcthorse123'' data
            = Inr (alice_cli [(''github'', [(''token'', github_token)])]))"
proof -
  have parse: "JSON_parse demo_lib (JSON_stringify demo_lib [(''github'', [(''token'', github_token)])])
             = Inr [(''github'', [(''token'', github_token)])]"
    by (simp add: demo_defs)
  have str: "JSON_stringify demo_lib = demo_stringify" by (simp add: demo_lib_def)
  have cli: "km_masterPassword (alice_cli [(''github'', [(''token'', github_token)])])
               = Some ''correcthorse123''
             \<and> km_vault (alice_cli [(''github'', [(''token'', github_token)])])
               = [(''github'', [(''token'', github_token)])]
             \<and> random_iv demo_world = ''0123456789abcdef''
             \<and> \<not> set_throws demo_world vaultFile"
    by (simp add: alice_cli_def demo_world_def)
  have same: "alice_cli []\<lparr>km_masterPassword := Some ''correcthorse123'',
                km_vault := [(''github'', [(''token'', github_token)])]\<rparr>
              = alice_cli [(''github'', [(''token'', github_token)])]"
    by (simp add: alice_cli_def)
  show ?thesis
    using encrypt_decrypt_roundtrip [OF aead_sound_demo base64_sound_demo,
        of "''0123456789abcdef''" "[(''github'', [(''token'', github_token)])]"
           "''correcthorse123''" "''5a17c0ffee5a17c0''"
           "alice_cli [(''github'', [(''token'', github_token)])]" demo_world "alice_cli []"]
      aead_sound_demo base64_sound_demo parse str cli same
    by simp
qed





section \<open>Listing\<close>

lemma list_keys_of_redact:
  "list_keys_of (map (\<lambda>(keyName, e). (keyName, e\<lparr>e_value := []\<rparr>)) keys) = list_keys_of keys"
  by (induction keys) (auto simp: list_keys_of_def)

lemma fold_list_redact:
  "fold (\<lambda>(platform, keys) result. js_set result platform (list_keys_of keys)) (redact vault) acc
   = fold (\<lambda>(platform, keys) result. js_set result platform (list_keys_of keys)) vault acc"
  unfolding redact_def
  by (induction vault arbitrary: acc) (auto simp: list_keys_of_redact)

lemma op_list_redact: "op_list (redact vault) = op_list vault"
  by (simp add: op_list_def fold_list_redact)

text \<open>
  C10. The output of \<^verbatim>\<open>list\<close> holds the name, the \<^verbatim>\<open>added\<close> timestamp and the
  \<^verbatim>\<open>meta\<close> of each entry (a \<open>listing\<close> has no other field) and no secret value: two
  vaults that are equal once every \<^verbatim>\<open>value\<close> is blanked give the same output, in the
  operation switch of the serverless function and in \<^verbatim>\<open>listKeys\<close> of the class.
\<close>

theorem list_hides_values:
  assumes "redact v1 = redact v2"
  shows "op_list v1 = op_list v2
       \<and> run_operation (req\<lparr>body_operation := ''list''\<rparr>) w v1
         = run_operation (req\<lparr>body_operation := ''list''\<rparr>) w v2
       \<and> listKeys (this\<lparr>km_vault := v1\<rparr>) = listKeys (this\<lparr>km_vault := v2\<rparr>)"
proof -
  have "op_list v1 = op_list v2"
    using assms op_list_redact [of v1] op_list_redact [of v2] by simp
  then show ?thesis
    by (simp add: run_operation_def listKeys_def op_list_def)
qed

theorem list_hides_values_witness:
  "redact [(''github'', [(''token'', github_token)])]
     = redact [(''github'', [(''token'', github_token\<lparr>e_value := ''ghp_y''\<rparr>)])]
   \<and> op_list [(''github'', [(''token'', github_token)])]
     = op_list [(''github'', [(''token'', github_token\<lparr>e_value := ''ghp_y''\<rparr>)])]
   \<and> op_list [(''github'', [(''token'', github_token)])]
     = [(''github'', [\<lparr>l_name = ''token'', l_added = ''2024-05-01T10:00:00.000Z'', l_meta = []\<rparr>])]"
proof -
  have r: "redact [(''github'', [(''token'', github_token)])]
     = redact [(''github'', [(''token'', github_token\<lparr>e_value := ''ghp_y''\<rparr>)])]"
    by (simp add: redact_def)
  have l: "op_list [(''github'', [(''token'', github_token)])]
     = [(''github'', [\<lparr>l_name = ''token'', l_added = ''2024-05-01T10:00:00.000Z'', l_meta = []\<rparr>])]"
    by (simp add: code_defs github_token_def)
  show ?thesis using list_hides_values [OF r] r l by simp
qed

section \<open>The handler\<close>

lemma handler_login_existing:
  assumes "httpMethod ev = ''POST''" and "body ev = Some req"
    and "body_username req \<noteq> []" and "body_masterPassword req \<noteq> []"
    and "kv_get store (salt_key (body_username req)) \<noteq> []"
    and "kv_get store (vault_key (body_username req)) \<noteq> []"
  shows "handler_login lib w store ev =
           Return \<lparr>statusCode = 200, payload = LoginBody (generateToken lib (body_username req))\<rparr>
             store"
  using assms by (simp add: handler_login_def Let_def)

text \<open>
  C4. For a user whose salt and vault are in the store, a login with any non-empty
  master password succeeds: the answer is 200 with a token for the user, which
  \<^verbatim>\<open>verifyToken\<close> accepts, and the store is left as it was. Neither the password nor the
  stored vault has a part in the answer: login decrypts nothing.
\<close>

theorem login_never_checks_password:
  assumes "httpMethod ev = ''POST''" and "endpoint ev = ''login''" and "body ev = Some req"
    and "body_username req \<noteq> []" and "body_masterPassword req \<noteq> []"
    and "kv_get store (salt_key (body_username req)) \<noteq> []"
    and "kv_get store (vault_key (body_username req)) \<noteq> []"
    and "jwt_sound lib"
  shows "handler lib w store ev =
           Some (\<lparr>statusCode = 200,
                  payload = LoginBody (generateToken lib (body_username req))\<rparr>, store)
       \<and> verifyToken lib (generateToken lib (body_username req)) = Some (body_username req)"
  using assms(1,2,8) handler_login_existing [OF assms(1,3,4,5,6,7)]
  by (simp add: handler_def jwt_sound_def verifyToken_def generateToken_def)

text \<open>Alice's vault was created under \<^verbatim>\<open>correcthorse123\<close>; she logs in with another password.\<close>

theorem login_never_checks_password_witness:
  "handler demo_lib demo_world (alice_store [(''github'', [(''token'', github_token)])])
     (alice_posts ''login'' ''not the password'' [] [] [] [])
   = Some (\<lparr>statusCode = 200, payload = LoginBody ''jwt:alice''\<rparr>,
           alice_store [(''github'', [(''token'', github_token)])])
   \<and> verifyToken demo_lib ''jwt:alice'' = Some ''alice''"
proof -
  have tok: "generateToken demo_lib ''alice'' = ''jwt:alice''"
    by (simp add: generateToken_def demo_lib_def)
  show ?thesis
    using login_never_checks_password [where lib = demo_lib and w = demo_world
        and store = "alice_store [(''github'', [(''token'', github_token)])]"
        and ev = "alice_posts ''login'' ''not the password'' [] [] [] []"
        and req = "\<lparr>body_username = ''alice'', body_masterPassword = ''not the password'',
                   body_operation = [], body_platform = [],
                   body_keyName = [], body_keyValue = [], body_meta = None\<rparr>",
        OF _ _ _ _ _ _ _ jwt_sound_demo] tok
    by (simp add: alice_posts_def alice_store_def kv_get_def salt_key_def vault_key_def
          encrypt_def demo_lib_def Let_def)
qed

lemma handler_vault_post_reached:
  assumes "httpMethod ev = ''POST''" and "endpoint ev = ''vault''"
    and "getAuthUser lib ev = Some username"
    and "kv_get store (salt_key username) \<noteq> []"
    and "kv_get store (vault_key username) \<noteq> []"
  shows "handler lib w store ev =
           (case handler_vault_post lib w store ev username (kv_get store (salt_key username))
                   (kv_get store (vault_key username)) of
              Return r store' \<Rightarrow> Some (r, store')
            | Throw err store' \<Rightarrow>
                Some (\<lparr>statusCode = 500, payload = ErrorBody ''Internal server error''\<rparr>, store')
            | Outside \<Rightarrow> None)"
  using assms by (simp add: handler_def handler_vault_def Let_def)









text \<open>What the handler does once an operation has a vault to save.\<close>

lemma handler_save:
  assumes "httpMethod ev = ''POST''" and "endpoint ev = ''vault''"
    and "getAuthUser lib ev = Some username"
    and "kv_get store (salt_key username) \<noteq> []"
    and "kv_get store (vault_key username) \<noteq> []"
    and "body ev = Some req" and "body_masterPassword req \<noteq> []"
    and "decrypt lib (kv_get store (vault_key username)) (body_masterPassword req)
           (kv_get store (salt_key username)) = Inr vault"
    and "run_operation req w vault = Save vault'"
  shows "handler lib w store ev =
     (let updatedVault = encrypt lib (random_iv w) vault' (body_masterPassword req)
                           (kv_get store (salt_key username))
      in if set_throws w (vault_key username)
         then Some (\<lparr>statusCode = 401, payload = ErrorBody ''Invalid master password''\<rparr>, store)
         else if set_throws w (lastModified_key username)
         then Some (\<lparr>statusCode = 401, payload = ErrorBody ''Invalid master password''\<rparr>,
                    store(vault_key username \<mapsto> updatedVault))
         else Some (\<lparr>statusCode = 200, payload = SuccessBody\<rparr>,
                    store(vault_key username \<mapsto> updatedVault,
                          lastModified_key username \<mapsto> date_modified w)))"
  using assms(6,7,8,9) unfolding handler_vault_post_reached [OF assms(1,2,3,4,5)]
  by (simp add: handler_vault_post_def Let_def kv_set_def)

text \<open>An operation that answers without saving leaves the store as it was.\<close>

lemma handler_respond:
  assumes "httpMethod ev = ''POST''" and "endpoint ev = ''vault''"
    and "getAuthUser lib ev = Some username"
    and "kv_get store (salt_key username) \<noteq> []"
    and "kv_get store (vault_key username) \<noteq> []"
    and "body ev = Some req" and "body_masterPassword req \<noteq> []"
    and "decrypt lib (kv_get store (vault_key username)) (body_masterPassword req)
           (kv_get store (salt_key username)) = Inr vault"
    and "run_operation req w vault = Respond r"
  shows "handler lib w store ev = Some (r, store)"
  using assms(6,7,8,9) unfolding handler_vault_post_reached [OF assms(1,2,3,4,5)]
  by (simp add: handler_vault_post_def Let_def)

lemma key_names_differ: "vault_key u \<noteq> lastModified_key u"
  by (simp add: vault_key_def lastModified_key_def)

text \<open>
  C3, as the code has it. When an operation of an authenticated POST has mutated the
  decrypted vault (\<^verbatim>\<open>add\<close> or \<^verbatim>\<open>remove\<close> reached its save), the answer is 200 only if
  the store then holds the re-encrypted mutated vault; and if writing the vault throws,
  the answer is not 200 and the store is what it was before the request.
\<close>

theorem success_only_after_save:
  assumes "httpMethod ev = ''POST''" and "endpoint ev = ''vault''"
    and "getAuthUser lib ev = Some username"
    and "kv_get store (salt_key username) \<noteq> []"
    and "kv_get store (vault_key username) \<noteq> []"
    and "body ev = Some req" and "body_masterPassword req \<noteq> []"
    and "decrypt lib (kv_get store (vault_key username)) (body_masterPassword req)
           (kv_get store (salt_key username)) = Inr vault"
    and "run_operation req w vault = Save vault'"
  shows "\<exists>r store'. handler lib w store ev = Some (r, store')
       \<and> (statusCode r = 200 \<longrightarrow>
            store' (vault_key username) =
              Some (encrypt lib (random_iv w) vault' (body_masterPassword req)
                      (kv_get store (salt_key username))))
       \<and> (set_throws w (vault_key username) \<longrightarrow> statusCode r \<noteq> 200 \<and> store' = store)"
  unfolding handler_save [OF assms]
  by (simp add: Let_def key_names_differ)

theorem success_only_after_save_witness:
  "handler demo_lib demo_world (alice_store [])
     (alice_posts ''vault'' ''correcthorse123'' ''add'' ''github'' ''token'' ''ghp_x'')
   = Some (\<lparr>statusCode = 200, payload = SuccessBody\<rparr>,
           (alice_store [])
             (vault_key ''alice'' \<mapsto>
                encrypt demo_lib ''0123456789abcdef'' [(''github'', [(''token'', github_token)])]
                  ''correcthorse123'' ''5a17c0ffee5a17c0'',
              lastModified_key ''alice'' \<mapsto> ''2024-05-01T10:00:00.001Z''))"
proof -
  let ?req = "\<lparr>body_username = ''alice'', body_masterPassword = ''correcthorse123'',
                   body_operation = ''add'', body_platform = ''github'',
                   body_keyName = ''token'', body_keyValue = ''ghp_x'', body_meta = None\<rparr>"
  have "\<exists>r store'. handler demo_lib demo_world (alice_store [])
            (alice_posts ''vault'' ''correcthorse123'' ''add'' ''github'' ''token'' ''ghp_x'')
          = Some (r, store')
       \<and> (statusCode r = 200 \<longrightarrow>
            store' (vault_key ''alice'') =
              Some (encrypt demo_lib (random_iv demo_world)
                      [(''github'', [(''token'', github_token)])]
                      (body_masterPassword ?req) (kv_get (alice_store []) (salt_key ''alice''))))
       \<and> (set_throws demo_world (vault_key ''alice'')
            \<longrightarrow> statusCode r \<noteq> 200 \<and> store' = alice_store [])"
    by (rule success_only_after_save [where req = ?req and vault = "[]"])
       (simp_all add: demo_defs code_defs)
  then show ?thesis
    by (simp add: demo_defs code_defs)
qed

text \<open>
  C3 as stated fails: when \<^verbatim>\<open>kvStore.set\<close> throws for the vault, the answer is not a
  persistence error but the 401 \<^verbatim>\<open>Invalid master password\<close> that a wrong password gets.
\<close>

theorem failed_write_counterexample:
  "handler demo_lib (demo_world\<lparr>set_throws := (\<lambda>k. k = vault_key ''alice'')\<rparr>) (alice_store [])
     (alice_posts ''vault'' ''correcthorse123'' ''add'' ''github'' ''token'' ''ghp_x'')
   = Some (\<lparr>statusCode = 401, payload = ErrorBody ''Invalid master password''\<rparr>, alice_store [])
  \<and> handler demo_lib demo_world (alice_store [])
     (alice_posts ''vault'' ''wrongpassword'' ''add'' ''github'' ''token'' ''ghp_x'')
   = Some (\<lparr>statusCode = 401, payload = ErrorBody ''Invalid master password''\<rparr>, alice_store [])"
  by (simp add: demo_defs code_defs)

text \<open>
  C8, as the code has it. \<^verbatim>\<open>decrypt\<close> has no length check. A blob of fewer than 32
  bytes goes to the decipher like any other, as a truncated IV, a truncated tag and an
  empty ciphertext, and \<^verbatim>\<open>decrypt\<close> throws: the decipher's own error, or, should the
  tag verify, the \<^verbatim>\<open>SyntaxError\<close> of \<^verbatim>\<open>JSON.parse\<close> on the empty plaintext.
\<close>

theorem short_blob_throws:
  assumes "length (from_base64 lib blob) < 32" and "stream_cipher lib"
    and "JSON_parse lib [] = Inl SyntaxError"
  shows "decrypt lib blob pw salt =
           (case gcm_open lib (deriveKey lib pw salt) (take 16 (from_base64 lib blob))
                   (drop 16 (from_base64 lib blob)) [] of
              Inl err \<Rightarrow> Inl err
            | Inr decrypted \<Rightarrow> Inl SyntaxError)"
proof -
  let ?d = "from_base64 lib blob"
  have tag: "take 16 (drop 16 ?d) = drop 16 ?d" and ct: "drop 32 ?d = []"
    using assms(1) by simp_all
  have "pt = []" if "gcm_open lib key iv authTag [] = Inr pt" for key iv authTag pt
    using assms(2) that unfolding stream_cipher_def by fastforce
  then show ?thesis
    using assms(3) by (auto simp add: decrypt_def decrypt_utf8_def Let_def tag ct split: sum.splits)
qed

theorem short_blob_throws_witness:
  "length (from_base64 demo_lib ''0123456789abcdefTAG!'') < 32
   \<and> decrypt demo_lib ''0123456789abcdefTAG!'' ''correcthorse123'' ''5a17c0ffee5a17c0''
     = Inl AuthFailure"
proof -
  have p: "JSON_parse demo_lib [] = Inl SyntaxError" by (simp add: demo_defs)
  have l: "length (from_base64 demo_lib ''0123456789abcdefTAG!'') < 32"
    by (simp add: demo_lib_def)
  show ?thesis
    using short_blob_throws [OF l stream_cipher_demo p, of "''correcthorse123''"
        "''5a17c0ffee5a17c0''"] l
    by (simp add: demo_lib_def demo_tag_def deriveKey_def)
qed

text \<open>
  C8 as stated fails: a blob of 20 bytes (a full IV and four bytes of tag) is rejected
  with the error of a failed authentication, the same error that a full blob gets under
  the wrong password.
\<close>

theorem short_blob_counterexample:
  "decrypt demo_lib ''0123456789abcdefTAG!'' ''correcthorse123'' ''5a17c0ffee5a17c0''
     = Inl AuthFailure
   \<and> decrypt demo_lib
       (encrypt demo_lib ''0123456789abcdef'' [] ''otherpassword456'' ''5a17c0ffee5a17c0'')
       ''correcthorse123'' ''5a17c0ffee5a17c0''
     = Inl AuthFailure"
  by (simp add: demo_defs code_defs)

section \<open>Names that plain objects inherit\<close>

text \<open>
  C5. The code does not keep the invariant. On an empty vault, \<^verbatim>\<open>add\<close> of the key
  \<^verbatim>\<open>__proto__\<close> for platform \<^verbatim>\<open>github\<close> creates the platform object, and the
  assignment of the entry then replaces that object's prototype instead of creating a
  property. The answer is 200, the stored vault is \<^verbatim>\<open>{"github":{}}\<close>, a platform with an
  empty inner mapping, and \<^verbatim>\<open>list\<close> reports the platform with no keys.
\<close>

theorem proto_key_empties_platform:
  "case handler demo_lib demo_world (alice_store [])
          (alice_posts ''vault'' ''correcthorse123'' ''add'' ''github'' ''__proto__'' ''x'') of
     None \<Rightarrow> False
   | Some (r, store) \<Rightarrow>
       r = \<lparr>statusCode = 200, payload = SuccessBody\<rparr>
       \<and> decrypt demo_lib (kv_get store (vault_key ''alice'')) ''correcthorse123''
           (kv_get store (salt_key ''alice'')) = Inr [(''github'', [])]
       \<and> handler demo_lib demo_world store
            (alice_posts ''vault'' ''correcthorse123'' ''list'' [] [] [])
           = Some (\<lparr>statusCode = 200, payload = ListBody [(''github'', [])]\<rparr>, store)"
  by (simp add: demo_defs code_defs)

text \<open>
  C6. The code does not store every key. Two \<^verbatim>\<open>add\<close> requests for the key
  \<^verbatim>\<open>__proto__\<close> of platform \<^verbatim>\<open>github\<close> are both answered 200, and the vault is what it
  was: no entry for the key exists, and \<^verbatim>\<open>get\<close> answers 200 with the object the
  platform inherits, not with an entry of value \<^verbatim>\<open>v2\<close>.
\<close>

theorem proto_key_not_stored:
  "case handler demo_lib demo_world (alice_store [(''github'', [(''token'', github_token)])])
          (alice_posts ''vault'' ''correcthorse123'' ''add'' ''github'' ''__proto__'' ''v1'') of
     None \<Rightarrow> False
   | Some (r1, store1) \<Rightarrow>
       r1 = \<lparr>statusCode = 200, payload = SuccessBody\<rparr>
       \<and> (case handler demo_lib demo_world store1
                 (alice_posts ''vault'' ''correcthorse123'' ''add'' ''github'' ''__proto__'' ''v2'') of
            None \<Rightarrow> False
          | Some (r2, store2) \<Rightarrow>
              r2 = \<lparr>statusCode = 200, payload = SuccessBody\<rparr>
              \<and> decrypt demo_lib (kv_get store2 (vault_key ''alice'')) ''correcthorse123''
                  (kv_get store2 (salt_key ''alice''))
                = Inr [(''github'', [(''token'', github_token)])]
              \<and> handler demo_lib demo_world store2
                  (alice_posts ''vault'' ''correcthorse123'' ''get'' ''github'' ''__proto__'' [])
                = Some (\<lparr>statusCode = 200, payload = InheritedBody ''__proto__''\<rparr>, store2))"
  by (simp add: demo_defs code_defs)

text \<open>
  C7. The code does not answer NotFound for every absent key. The vault holds
  \<^verbatim>\<open>github/token\<close> only; \<^verbatim>\<open>remove\<close> of \<^verbatim>\<open>github/toString\<close> passes the existence test,
  because the platform object inherits a \<^verbatim>\<open>toString\<close>, deletes nothing, saves the vault
  again and answers 200.
\<close>

theorem remove_inherited_name_succeeds:
  "case handler demo_lib demo_world (alice_store [(''github'', [(''token'', github_token)])])
          (alice_posts ''vault'' ''correcthorse123'' ''remove'' ''github'' ''toString'' []) of
     None \<Rightarrow> False
   | Some (r, store) \<Rightarrow>
       r = \<lparr>statusCode = 200, payload = SuccessBody\<rparr>
       \<and> decrypt demo_lib (kv_get store (vault_key ''alice'')) ''correcthorse123''
           (kv_get store (salt_key ''alice'')) = Inr [(''github'', [(''token'', github_token)])]"
  by (simp add: demo_defs code_defs)

section \<open>The operations on ordinary names\<close>

text \<open>What \<^verbatim>\<open>add\<close> does for names that reach the vault.\<close>

lemma op_add_saves:
  assumes "platform \<noteq> []" and "keyName \<noteq> []" and "keyValue \<noteq> []"
    and "js_get vault platform \<noteq> Inherited"
  shows "op_add vault platform keyName keyValue meta now =
           Save (js_set vault platform
                   (js_set (case map_of vault platform of None \<Rightarrow> [] | Some keys \<Rightarrow> keys) keyName
                      \<lparr>e_value = keyValue, e_added = now,
                       e_meta = (case meta of None \<Rightarrow> [] | Some m \<Rightarrow> m)\<rparr>))"
proof (cases "map_of vault platform")
  case None
  with assms(4) have ord: "ordinary platform" by (simp add: js_get_Inherited)
  then have np: "platform \<noteq> ''__proto__''" using proto_not_ordinary by auto
  from None ord have "js_get vault platform = Undefined" by (simp add: js_get_Undefined)
  moreover have "js_get (js_set vault platform []) platform = Own []"
    using np by (simp add: js_get_Own map_of_js_set)
  ultimately show ?thesis
    using assms(1,2,3) None by (simp add: op_add_def Let_def js_set_js_set)
next
  case (Some keys)
  then have "js_get vault platform = Own keys" by (simp add: js_get_Own)
  then show ?thesis
    using assms(1,2,3) Some by (simp add: op_add_def Let_def)
qed


lemma op_add_Save_cases:
  assumes "op_add vault platform keyName keyValue meta now = Save vault'"
  shows "platform \<noteq> [] \<and> keyName \<noteq> [] \<and> keyValue \<noteq> [] \<and> js_get vault platform \<noteq> Inherited"
proof -
  have "platform \<noteq> [] \<and> keyName \<noteq> [] \<and> keyValue \<noteq> []"
    using assms by (auto simp: op_add_def split: if_splits)
  moreover have "js_get vault platform \<noteq> Inherited"
  proof
    assume "js_get vault platform = Inherited"
    with assms calculation show False by (simp add: op_add_def)
  qed
  ultimately show ?thesis by simp
qed

text \<open>The invariant of the data model, for keys other than \<^verbatim>\<open>__proto__\<close>.\<close>

lemma op_add_keeps_no_empty_platform:
  assumes "no_empty_platform vault" and "keyName \<noteq> ''__proto__''"
    and "op_add vault platform keyName keyValue meta now = Save vault'"
  shows "no_empty_platform vault'"
proof -
  from op_add_Save_cases [OF assms(3)]
  have "op_add vault platform keyName keyValue meta now =
           Save (js_set vault platform
                   (js_set (case map_of vault platform of None \<Rightarrow> [] | Some keys \<Rightarrow> keys) keyName
                      \<lparr>e_value = keyValue, e_added = now,
                       e_meta = (case meta of None \<Rightarrow> [] | Some m \<Rightarrow> m)\<rparr>))"
    by (simp add: op_add_saves)
  with assms(3) have "vault' = js_set vault platform
                   (js_set (case map_of vault platform of None \<Rightarrow> [] | Some keys \<Rightarrow> keys) keyName
                      \<lparr>e_value = keyValue, e_added = now,
                       e_meta = (case meta of None \<Rightarrow> [] | Some m \<Rightarrow> m)\<rparr>)"
    by simp
  then show ?thesis
    using assms(1,2) unfolding no_empty_platform_def
    by (simp add: list_all_js_set js_set_not_empty)
qed

lemma op_remove_keeps_no_empty_platform:
  assumes "no_empty_platform vault" and "op_remove vault platform keyName = Save vault'"
  shows "no_empty_platform vault'"
  using assms unfolding no_empty_platform_def op_remove_def Let_def object_keys_def
  by (auto simp: list_all_js_set list_all_js_delete split: if_splits property.splits)

lemma mutate_keeps_no_empty_platform:
  assumes "no_empty_platform vault" and "key_of m \<noteq> ''__proto__''"
  shows "no_empty_platform (mutate vault m)"
proof (cases m)
  case (Add platform keyName keyValue meta now)
  with assms show ?thesis
    by (cases "op_add vault platform keyName keyValue meta now")
       (auto dest: op_add_keeps_no_empty_platform)
next
  case (Remove platform keyName)
  with assms show ?thesis
    by (cases "op_remove vault platform keyName")
       (auto dest: op_remove_keeps_no_empty_platform)
qed

lemma mutate_not_Builtin:
  assumes "ordinary (platform_of m)"
  shows "(case m of
            Add platform keyName keyValue meta now \<Rightarrow>
              op_add vault platform keyName keyValue meta now
          | Remove platform keyName \<Rightarrow> op_remove vault platform keyName) \<noteq> Builtin"
proof (cases m)
  case (Add platform keyName keyValue meta now)
  with assms have ni: "js_get vault platform \<noteq> Inherited" by (simp add: js_get_Inherited)
  show ?thesis
  proof (cases "platform = [] \<or> keyName = [] \<or> keyValue = []")
    case True
    with Add show ?thesis by (auto simp: op_add_def)
  next
    case False
    with Add op_add_saves [of platform keyName keyValue vault meta now] ni
    show ?thesis by simp
  qed
next
  case (Remove platform keyName)
  with assms have "js_get vault platform \<noteq> Inherited" by (simp add: js_get_Inherited)
  with Remove show ?thesis
    by (auto simp: op_remove_def Let_def split: property.splits)
qed

text \<open>
  Every vault that sequences of \<^verbatim>\<open>add\<close> and \<^verbatim>\<open>remove\<close> reach from the empty vault
  keeps the invariant, when no key is named \<^verbatim>\<open>__proto__\<close>.
\<close>

lemma reachable_no_empty_platform:
  assumes "no_empty_platform vault"
    and "list_all (\<lambda>m. ordinary (platform_of m) \<and> key_of m \<noteq> ''__proto__'') ms"
  shows "no_empty_platform (foldl mutate vault ms)"
  using assms
  by (induction ms arbitrary: vault) (auto simp: mutate_keeps_no_empty_platform)

lemma empty_vault_no_empty_platform: "no_empty_platform []"
  by (simp add: no_empty_platform_def)

text \<open>\<^verbatim>\<open>remove\<close> on names that no object inherits.\<close>

lemma op_remove_not_found:
  assumes "platform \<noteq> []" and "keyName \<noteq> []" and "ordinary platform" and "ordinary keyName"
    and "map_of vault platform = None
         \<or> (\<exists>keys. map_of vault platform = Some keys \<and> map_of keys keyName = None)"
  shows "op_remove vault platform keyName =
           Respond \<lparr>statusCode = 404, payload = ErrorBody ''Key not found''\<rparr>"
proof (cases "map_of vault platform")
  case None
  with assms(3) have "js_get vault platform = Undefined" by (simp add: js_get_Undefined)
  with assms(1,2) show ?thesis by (simp add: op_remove_def)
next
  case (Some keys)
  with assms(5) have "map_of keys keyName = None" by auto
  with assms(4) have "js_get keys keyName = Undefined" by (simp add: js_get_Undefined)
  moreover from Some have "js_get vault platform = Own keys" by (simp add: js_get_Own)
  ultimately show ?thesis using assms(1,2) by (simp add: op_remove_def)
qed

lemma op_remove_found:
  assumes "platform \<noteq> []" and "keyName \<noteq> []"
    and "map_of vault platform = Some keys" and "map_of keys keyName = Some e"
  shows "op_remove vault platform keyName =
           Save (if js_delete keys keyName = [] then js_delete vault platform
                 else js_set vault platform (js_delete keys keyName))"
proof -
  from assms(3) have "js_get vault platform = Own keys" by (simp add: js_get_Own)
  moreover from assms(4) have "js_get keys keyName = Own e" by (simp add: js_get_Own)
  ultimately show ?thesis
    using assms(1,2) by (simp add: op_remove_def Let_def object_keys_def)
qed

text \<open>\<^verbatim>\<open>add\<close> overwrites: the last write wins.\<close>

lemma op_add_then_get:
  assumes "platform \<noteq> []" and "keyName \<noteq> []" and "keyValue \<noteq> []"
    and "js_get vault platform \<noteq> Inherited" and "keyName \<noteq> ''__proto__''"
    and "op_add vault platform keyName keyValue meta now = Save vault'"
  shows "op_get vault' platform keyName =
           Respond \<lparr>statusCode = 200,
                    payload = KeyBody \<lparr>e_value = keyValue, e_added = now,
                                       e_meta = (case meta of None \<Rightarrow> [] | Some m \<Rightarrow> m)\<rparr>\<rparr>
       \<and> js_get vault' platform \<noteq> Inherited"
proof -
  let ?e = "\<lparr>e_value = keyValue, e_added = now,
             e_meta = (case meta of None \<Rightarrow> [] | Some m \<Rightarrow> m)\<rparr>"
  let ?keys = "js_set (case map_of vault platform of None \<Rightarrow> [] | Some keys \<Rightarrow> keys) keyName ?e"
  have v': "vault' = js_set vault platform ?keys"
    using assms(6) op_add_saves [OF assms(1,2,3,4)] by simp
  have "platform \<noteq> ''__proto__'' \<or> map_of vault platform \<noteq> None"
    using assms(4) proto_not_ordinary by (auto simp: js_get_Inherited)
  then have "map_of vault' platform = Some ?keys"
    unfolding v' by (auto simp: map_of_js_set)
  then have p: "js_get vault' platform = Own ?keys" by (simp add: js_get_Own)
  have "map_of ?keys keyName = Some ?e"
    using assms(5) by (simp add: map_of_js_set)
  then have "js_get ?keys keyName = Own ?e" by (simp add: js_get_Own)
  with p assms(1,2) show ?thesis by (simp add: op_get_def)
qed

lemma op_add_twice:
  assumes "platform \<noteq> []" and "keyName \<noteq> []" and "v1 \<noteq> []" and "v2 \<noteq> []"
    and "js_get vault platform \<noteq> Inherited" and "keyName \<noteq> ''__proto__''"
  shows "\<exists>va vb. op_add vault platform keyName v1 m1 t1 = Save va
           \<and> op_add va platform keyName v2 m2 t2 = Save vb
           \<and> op_get vb platform keyName =
               Respond \<lparr>statusCode = 200,
                        payload = KeyBody \<lparr>e_value = v2, e_added = t2,
                                           e_meta = (case m2 of None \<Rightarrow> [] | Some m \<Rightarrow> m)\<rparr>\<rparr>"
proof -
  obtain va where a: "op_add vault platform keyName v1 m1 t1 = Save va"
    using op_add_saves [OF assms(1,2,3,5)] by blast
  have ia: "js_get va platform \<noteq> Inherited"
    using op_add_then_get [OF assms(1,2,3,5,6) a] by simp
  obtain vb where b: "op_add va platform keyName v2 m2 t2 = Save vb"
    using op_add_saves [OF assms(1,2,4) ia] by blast
  show ?thesis
    using a b op_add_then_get [OF assms(1,2,4) ia assms(6) b] by blast
qed

text \<open>Object keys stay distinct, so a key is listed once.\<close>

lemma set_ins_index: "set (ins_index k v obj) = insert (k, v) (set obj)"
  by (induction obj) (auto split: if_splits)

lemma keys_ins_index: "fst ` set (ins_index k v obj) = insert k (fst ` set obj)"
  by (simp add: set_ins_index)

lemma distinct_ins_index:
  "distinct (map fst obj) \<Longrightarrow> k \<notin> fst ` set obj \<Longrightarrow> distinct (map fst (ins_index k v obj))"
proof (induction obj)
  case Nil
  then show ?case by simp
next
  case (Cons p rest)
  then show ?case
    using keys_ins_index [of k v rest] by (cases p) (auto simp del: keys_ins_index)
qed

lemma distinct_js_set: "distinct (map fst obj) \<Longrightarrow> distinct (map fst (js_set obj k v))"
  by (auto simp: js_set_def distinct_ins_index AList.distinct_update map_of_eq_None_iff
      split: option.splits)

lemma distinct_js_delete: "distinct (map fst obj) \<Longrightarrow> distinct (map fst (js_delete obj k))"
  by (simp add: js_delete_def AList.distinct_delete)

text \<open>\<^verbatim>\<open>list\<close> reports own platforms only.\<close>

lemma fold_list_None:
  assumes "map_of acc p = None" and "map_of vault p = None"
  shows "map_of (fold (\<lambda>(platform, keys) result. js_set result platform (list_keys_of keys))
                   vault acc) p = None"
  using assms
proof (induction vault arbitrary: acc)
  case Nil
  then show ?case by simp
next
  case (Cons a vault)
  obtain q keys where a: "a = (q, keys)" by (cases a)
  with Cons.prems(2) have "q \<noteq> p" and rest: "map_of vault p = None"
    by (auto split: if_splits)
  then have "map_of (js_set acc q (list_keys_of keys)) p = None"
    using Cons.prems(1) by (simp add: map_of_js_set)
  from Cons.IH [OF this rest] a show ?case by simp
qed

lemma op_list_None: "map_of vault p = None \<Longrightarrow> map_of (op_list vault) p = None"
  by (simp add: op_list_def fold_list_None)

text \<open>After \<^verbatim>\<open>add\<close> and \<^verbatim>\<open>remove\<close> of the only key of a platform, the platform is gone.\<close>

lemma add_then_remove_prunes:
  assumes "platform \<noteq> []" and "keyName \<noteq> []" and "keyValue \<noteq> []"
    and "map_of vault platform = None" and "ordinary platform" and "keyName \<noteq> ''__proto__''"
  shows "\<exists>v1 v2. op_add vault platform keyName keyValue meta now = Save v1
           \<and> op_remove v1 platform keyName = Save v2
           \<and> map_of v2 platform = None
           \<and> map_of (op_list v2) platform = None"
proof -
  let ?e = "\<lparr>e_value = keyValue, e_added = now,
             e_meta = (case meta of None \<Rightarrow> [] | Some m \<Rightarrow> m)\<rparr>"
  let ?v1 = "js_set vault platform (js_set [] keyName ?e)"
  have ni: "js_get vault platform \<noteq> Inherited"
    using assms(5) by (simp add: js_get_Inherited)
  have a: "op_add vault platform keyName keyValue meta now = Save ?v1"
    using op_add_saves [OF assms(1,2,3) ni] assms(4) by simp
  have keys: "js_set [] keyName ?e = [(keyName, ?e)]"
    using assms(6) by (simp add: js_set_def)
  have np: "platform \<noteq> ''__proto__''"
    using assms(5) proto_not_ordinary by auto
  have p: "map_of ?v1 platform = Some [(keyName, ?e)]"
    using np by (simp add: map_of_js_set keys)
  have r: "op_remove ?v1 platform keyName = Save (js_delete ?v1 platform)"
    using op_remove_found [OF assms(1,2) p, of ?e] by (simp add: js_delete_def)
  have gone: "map_of (js_delete ?v1 platform) platform = None"
    by (simp add: map_of_js_delete)
  with a r op_list_None [OF gone] show ?thesis by blast
qed

text \<open>
  The command-line class has no rollback: when \<^verbatim>\<open>writeFileSync\<close> throws in
  \<^verbatim>\<open>saveVault\<close>, \<^verbatim>\<open>addKey\<close> throws and the vault in memory keeps the new entry, which
  the file does not have.
\<close>

lemma addKey_failed_write:
  assumes "km_initialized this" and "km_masterPassword this = Some P"
    and "set_throws w vaultFile"
    and "map_of (km_vault this) platform = Some keys" and "keyName \<noteq> ''__proto__''"
  shows "addKey lib w this file platform keyName keyValue meta =
           Thrown StoreError
             (this\<lparr>km_vault := js_set (km_vault this) platform
                     (js_set keys keyName
                        \<lparr>e_value = keyValue, e_added = date_added w, e_meta = meta\<rparr>)\<rparr>)
             file"
proof -
  from assms(4) have "js_get (km_vault this) platform = Own keys" by (simp add: js_get_Own)
  then show ?thesis
    using assms(1,2,3,5) by (simp add: addKey_def saveVault_def Let_def)
qed

end
